theory Spec2Isabelle
  imports Complex_Main "HOL-Library.Monad_Syntax"
begin

section \<open>JavaScript values\<close>

text \<open>
  The bridge of \<^verbatim>\<open>server.js\<close> receives text from two Redis channels, decodes it with
  \<^verbatim>\<open>JSON.parse\<close> and hands the decoded value to socket.io. The values it handles are
  the ones \<^verbatim>\<open>JSON.parse\<close> returns, together with \<^verbatim>\<open>undefined\<close>, which a read of a
  missing property yields.

  A number is an IEEE double: a finite double is a rational (negative zero is identified
  with zero: both are falsy), and an overflowing literal such as \<^verbatim>\<open>1e999\<close> decodes to an
  infinity.
\<close>

datatype number = Finite rat | PosInfinity | NegInfinity | NaN

text \<open>
  An object is a map from property names to values. The claims are about the fields of the
  records, not about the order in which an object enumerates them.
\<close>

datatype jsval =
    Undefined
  | Null
  | Bool bool
  | Num number
  | Str string
  | Arr "jsval list"
  | Obj "string \<Rightarrow> jsval option"

datatype js_error = SyntaxError | TypeError

text \<open>ToBoolean, as \<^verbatim>\<open>||\<close> applies it to its left operand.\<close>

fun truthy :: "jsval \<Rightarrow> bool" where
  "truthy Undefined = False"
| "truthy Null = False"
| "truthy (Bool b) = b"
| "truthy (Num n) = (n \<noteq> Finite 0 \<and> n \<noteq> NaN)"
| "truthy (Str s) = (s \<noteq> [])"
| "truthy (Arr xs) = True"
| "truthy (Obj m) = True"

text \<open>\<^verbatim>\<open>a || b\<close>: the left operand when it is truthy, else the right one.\<close>

definition js_or :: "jsval \<Rightarrow> jsval \<Rightarrow> jsval" where
  "js_or a b = (if truthy a then a else b)"

text \<open>The decimal name of an array index or of a position in a string.\<close>

fun index_key :: "nat \<Rightarrow> string" where
  "index_key n =
     (if n < 10 then [char_of (48 + n)]
      else index_key (n div 10) @ [char_of (48 + n mod 10)])"

declare index_key.simps [simp del]

text \<open>
  The own enumerable properties of a value, which the spread \<^verbatim>\<open>...data\<close> copies: the fields
  of an object, the elements of an array under their indices, the characters of a string
  under their positions (a \<^typ>\<open>char\<close> stands for one code unit), and nothing for the
  other primitives.
\<close>

fun own_props :: "jsval \<Rightarrow> (string \<Rightarrow> jsval option)" where
  "own_props (Obj m) = m"
| "own_props (Arr xs) = map_of (zip (map index_key [0..<length xs]) xs)"
| "own_props (Str s) = map_of (zip (map index_key [0..<length s]) (map (\<lambda>c. Str [c]) s))"
| "own_props v = Map.empty"

text \<open>
  The member access \<^verbatim>\<open>data.name\<close>. On \<^verbatim>\<open>null\<close> and \<^verbatim>\<open>undefined\<close> it throws a TypeError
  (\<open>None\<close>); on every other value it yields the property, or \<^verbatim>\<open>undefined\<close> when the value
  has none of that name. The handler reads \<^verbatim>\<open>message\<close>, \<^verbatim>\<open>current_count\<close>,
  \<^verbatim>\<open>threshold\<close>, \<^verbatim>\<open>severity\<close> and \<^verbatim>\<open>timestamp\<close> only; no built-in prototype defines
  one of these names, so inherited members (\<^verbatim>\<open>length\<close>, \<^verbatim>\<open>toString\<close>, ...) are left out.
\<close>

fun get_prop :: "jsval \<Rightarrow> string \<Rightarrow> jsval option" where
  "get_prop Undefined name = None"
| "get_prop Null name = None"
| "get_prop v name = Some (case own_props v name of Some x \<Rightarrow> x | None \<Rightarrow> Undefined)"

section \<open>The server: console, connections, rooms\<close>

text \<open>
  One argument of a \<^verbatim>\<open>console.log\<close> or \<^verbatim>\<open>console.error\<close> call: a piece of text, a
  value, or a caught error.
\<close>

datatype log_arg = Txt string | Val jsval | Caught js_error

datatype console_call = Console_log "log_arg list" | Console_error "log_arg list"

datatype target = All_clients | In_room string

text \<open>One call of \<^verbatim>\<open>emit\<close> on the socket.io server: whom it addresses, the event name, the payload.\<close>

datatype emission = Emit (emit_to: target) (emit_event: string) (emit_payload: jsval)

text \<open>
  The state the callbacks of \<^verbatim>\<open>server.js\<close> act on: the connected sockets (by
  \<^verbatim>\<open>socket.id\<close>), the rooms of each, what was written to the console, the \<^verbatim>\<open>emit\<close> calls made
  on \<^verbatim>\<open>io\<close>, and the events each client has been sent (oldest first).
\<close>

record server =
  sockets :: "string set"
  rooms :: "string \<Rightarrow> string set"
  console :: "console_call list"
  calls :: "emission list"
  inbox :: "string \<Rightarrow> (string \<times> jsval) list"

definition console_log :: "log_arg list \<Rightarrow> server \<Rightarrow> server" where
  "console_log args st = st\<lparr>console := console st @ [Console_log args]\<rparr>"

definition console_error :: "log_arg list \<Rightarrow> server \<Rightarrow> server" where
  "console_error args st = st\<lparr>console := console st @ [Console_error args]\<rparr>"

text \<open>
  Modelled from the spec: socket.io's \<^verbatim>\<open>io.emit\<close>, \<^verbatim>\<open>io.to(room).emit\<close>, \<^verbatim>\<open>socket.join\<close>
  and \<^verbatim>\<open>socket.leave\<close> are library code, not part of \<^verbatim>\<open>server.js\<close>. Section 4.5: the first
  emits to every currently connected client regardless of room membership, the second only
  to the clients currently in the room. Sections 3 and 4.4: membership is a boolean per
  (connection, room) pair, which \<^verbatim>\<open>join\<close> sets and \<^verbatim>\<open>leave\<close> clears; a connection is created
  with no membership and its membership is discarded when it ends.
\<close>

definition io_emit :: "string \<Rightarrow> jsval \<Rightarrow> server \<Rightarrow> server" where
  "io_emit event payload st =
     st\<lparr>calls := calls st @ [Emit All_clients event payload],
        inbox := (\<lambda>c. if c \<in> sockets st then inbox st c @ [(event, payload)] else inbox st c)\<rparr>"

definition io_to_emit :: "string \<Rightarrow> string \<Rightarrow> jsval \<Rightarrow> server \<Rightarrow> server" where
  "io_to_emit room event payload st =
     st\<lparr>calls := calls st @ [Emit (In_room room) event payload],
        inbox := (\<lambda>c. if c \<in> sockets st \<and> room \<in> rooms st c
                       then inbox st c @ [(event, payload)] else inbox st c)\<rparr>"

definition socket_join :: "string \<Rightarrow> string \<Rightarrow> server \<Rightarrow> server" where
  "socket_join sid room st = st\<lparr>rooms := (rooms st)(sid := insert room (rooms st sid))\<rparr>"

definition socket_leave :: "string \<Rightarrow> string \<Rightarrow> server \<Rightarrow> server" where
  "socket_leave sid room st = st\<lparr>rooms := (rooms st)(sid := rooms st sid - {room})\<rparr>"

definition socket_open :: "string \<Rightarrow> server \<Rightarrow> server" where
  "socket_open sid st = st\<lparr>sockets := insert sid (sockets st), rooms := (rooms st)(sid := {})\<rparr>"

definition socket_close :: "string \<Rightarrow> server \<Rightarrow> server" where
  "socket_close sid st = st\<lparr>sockets := sockets st - {sid}, rooms := (rooms st)(sid := {})\<rparr>"

section \<open>The Redis message handler\<close>

text \<open>
  The object literal of lines 61 to 69. Its property reads throw on \<^verbatim>\<open>null\<close>; the
  properties are written in the order of the literal and the spread comes last, so a
  property of \<^verbatim>\<open>data\<close> replaces the one of the same name written before it. \<open>now\<close> is the
  text \<^verbatim>\<open>new Date().toISOString()\<close> returns when the handler runs.
\<close>

definition alertData :: "string \<Rightarrow> jsval \<Rightarrow> jsval option" where
  "alertData now data = do {
     message \<leftarrow> get_prop data ''message'';
     current_count \<leftarrow> get_prop data ''current_count'';
     threshold \<leftarrow> get_prop data ''threshold'';
     severity \<leftarrow> get_prop data ''severity'';
     timestamp \<leftarrow> get_prop data ''timestamp'';
     Some (Obj ([''type'' \<mapsto> Str ''count_exceeded'',
                 ''message'' \<mapsto> js_or message (Str ''Item count exceeded the limit.''),
                 ''current_count'' \<mapsto> current_count,
                 ''threshold'' \<mapsto> threshold,
                 ''severity'' \<mapsto> js_or severity (Str ''warning''),
                 ''timestamp'' \<mapsto> js_or timestamp (Str now)]
                ++ own_props data))
   }"

text \<open>
  The body of the \<^verbatim>\<open>try\<close> block of lines 51 to 78. \<open>JSON_parse\<close> is the decoder of the
  runtime (\<open>None\<close> when it throws its SyntaxError). The result is \<open>Inr\<close> of the state when
  the block completes, and \<open>Inl\<close> of the error thrown and the state reached when it throws.
\<close>

definition message_try ::
  "(string \<Rightarrow> jsval option) \<Rightarrow> string \<Rightarrow> string \<Rightarrow> string \<Rightarrow> server
     \<Rightarrow> (js_error \<times> server) + server" where
  "message_try JSON_parse now channel message st =
     (case JSON_parse message of
        None \<Rightarrow> Inl (SyntaxError, st)
      | Some data \<Rightarrow>
          let st1 = console_log [Txt (''Received message from '' @ channel @ '':''), Val data] st
          in if channel = ''inventory'' then
               Inr (io_to_emit ''inventory-updates'' ''inventory-update'' data
                     (io_emit ''inventory-update'' data st1))
             else if channel = ''inventory-alerts'' then
               (case alertData now data of
                  None \<Rightarrow> Inl (TypeError, st1)
                | Some alert \<Rightarrow>
                    Inr (io_to_emit ''inventory-alerts'' ''inventory-alert'' alert
                          (io_emit ''inventory-alert'' alert st1)))
             else Inr st1)"

text \<open>The callback of \<^verbatim>\<open>redis.on('message', ...)\<close>: the \<^verbatim>\<open>try\<close> block and its \<^verbatim>\<open>catch\<close>.\<close>

definition on_message ::
  "(string \<Rightarrow> jsval option) \<Rightarrow> string \<Rightarrow> string \<Rightarrow> string \<Rightarrow> server \<Rightarrow> server" where
  "on_message JSON_parse now channel message st =
     (case message_try JSON_parse now channel message st of
        Inl (error, st') \<Rightarrow>
          console_log [Txt ''Raw message:'', Txt message]
            (console_error [Txt ''Error parsing message from Redis:'', Caught error] st')
      | Inr st' \<Rightarrow> st')"

section \<open>The socket handlers\<close>

text \<open>The callbacks of lines 85 to 112, for the socket whose \<^verbatim>\<open>socket.id\<close> is \<open>sid\<close>.\<close>

definition on_connection :: "string \<Rightarrow> server \<Rightarrow> server" where
  "on_connection sid st = console_log [Txt (''Client connected: '' @ sid)] (socket_open sid st)"

definition on_join_inventory_updates :: "string \<Rightarrow> server \<Rightarrow> server" where
  "on_join_inventory_updates sid st =
     console_log [Txt (''Client '' @ sid @ '' joined inventory-updates room'')]
       (socket_join sid ''inventory-updates'' st)"

definition on_join_inventory_alerts :: "string \<Rightarrow> server \<Rightarrow> server" where
  "on_join_inventory_alerts sid st =
     console_log [Txt (''Client '' @ sid @ '' joined inventory-alerts room'')]
       (socket_join sid ''inventory-alerts'' st)"

definition on_leave_inventory_updates :: "string \<Rightarrow> server \<Rightarrow> server" where
  "on_leave_inventory_updates sid st =
     console_log [Txt (''Client '' @ sid @ '' left inventory-updates room'')]
       (socket_leave sid ''inventory-updates'' st)"

definition on_leave_inventory_alerts :: "string \<Rightarrow> server \<Rightarrow> server" where
  "on_leave_inventory_alerts sid st =
     console_log [Txt (''Client '' @ sid @ '' left inventory-alerts room'')]
       (socket_leave sid ''inventory-alerts'' st)"

definition on_disconnect :: "string \<Rightarrow> server \<Rightarrow> server" where
  "on_disconnect sid st = console_log [Txt (''Client disconnected: '' @ sid)] (socket_close sid st)"

section \<open>The record of defaults of the specification\<close>

text \<open>
  Section 4.3 of the specification describes the enriched alert as a record of defaults
  overlaid by the payload. This is the record of defaults in the specification's words, for
  a payload whose fields are \<open>m\<close>: \<^verbatim>\<open>type\<close>, \<^verbatim>\<open>message\<close>, \<^verbatim>\<open>severity\<close> and
  \<^verbatim>\<open>timestamp\<close> hold their defaults (the timestamp is the enrichment time), and
  \<^verbatim>\<open>current_count\<close> and \<^verbatim>\<open>threshold\<close> are taken verbatim from the payload
  (\<^verbatim>\<open>undefined\<close> if absent). It is compared below with what \<open>alertData\<close> computes.
\<close>

definition spec_default_record :: "string \<Rightarrow> (string \<Rightarrow> jsval option) \<Rightarrow> (string \<Rightarrow> jsval option)" where
  "spec_default_record now m =
     [''type'' \<mapsto> Str ''count_exceeded'',
      ''message'' \<mapsto> Str ''Item count exceeded the limit.'',
      ''current_count'' \<mapsto> (case m ''current_count'' of Some v \<Rightarrow> v | None \<Rightarrow> Undefined),
      ''threshold'' \<mapsto> (case m ''threshold'' of Some v \<Rightarrow> v | None \<Rightarrow> Undefined),
      ''severity'' \<mapsto> Str ''warning'',
      ''timestamp'' \<mapsto> Str now]"

section \<open>Example states and messages\<close>

text \<open>
  The state when the server starts, and a state reached from it: the client \<^verbatim>\<open>s1\<close> has
  connected and joined both rooms, the client \<^verbatim>\<open>s2\<close> has connected and joined none.
\<close>

definition initial_server :: server where
  "initial_server = \<lparr>sockets = {}, rooms = (\<lambda>sid. {}), console = [], calls = [], inbox = (\<lambda>sid. [])\<rparr>"

definition two_clients :: server where
  "two_clients =
     on_join_inventory_alerts ''s1'' (on_join_inventory_updates ''s1''
       (on_connection ''s2'' (on_connection ''s1'' initial_server)))"

text \<open>
  The decoder is a parameter of the handler. For the examples it is instantiated with what
  \<^verbatim>\<open>JSON.parse\<close> does on the texts used there: the value it returns on each of the five
  JSON texts listed, and its SyntaxError on \<^verbatim>\<open>oops\<close>, which is not JSON. It is evaluated on
  no other text.
\<close>

definition sample_JSON_parse :: "string \<Rightarrow> jsval option" where
  \<open>sample_JSON_parse = map_of
     [(''null'', Null),
      (''{"sku":"A1","qty":7}'', Obj [''sku'' \<mapsto> Str ''A1'', ''qty'' \<mapsto> Num (Finite 7)]),
      (''{"current_count":150,"threshold":100}'',
         Obj [''current_count'' \<mapsto> Num (Finite 150), ''threshold'' \<mapsto> Num (Finite 100)]),
      (''{"severity":"critical","type":"custom"}'',
         Obj [''severity'' \<mapsto> Str ''critical'', ''type'' \<mapsto> Str ''custom'']),
      (''{"severity":""}'', Obj [''severity'' \<mapsto> Str ''''])]\<close>

definition sample_now :: string where
  "sample_now = ''2025-06-29T10:30:00.000Z''"

section \<open>What each operation does to each part of the state\<close>

lemma console_log_fields:
  "sockets (console_log a st) = sockets st" "rooms (console_log a st) = rooms st"
  "calls (console_log a st) = calls st" "inbox (console_log a st) = inbox st"
  "console (console_log a st) = console st @ [Console_log a]"
  by (simp_all add: console_log_def)

lemma console_error_fields:
  "sockets (console_error a st) = sockets st" "rooms (console_error a st) = rooms st"
  "calls (console_error a st) = calls st" "inbox (console_error a st) = inbox st"
  "console (console_error a st) = console st @ [Console_error a]"
  by (simp_all add: console_error_def)

lemma io_emit_fields:
  "sockets (io_emit e p st) = sockets st" "rooms (io_emit e p st) = rooms st"
  "console (io_emit e p st) = console st"
  "calls (io_emit e p st) = calls st @ [Emit All_clients e p]"
  "inbox (io_emit e p st) c = (if c \<in> sockets st then inbox st c @ [(e, p)] else inbox st c)"
  by (simp_all add: io_emit_def)

lemma io_to_emit_fields:
  "sockets (io_to_emit r e p st) = sockets st" "rooms (io_to_emit r e p st) = rooms st"
  "console (io_to_emit r e p st) = console st"
  "calls (io_to_emit r e p st) = calls st @ [Emit (In_room r) e p]"
  "inbox (io_to_emit r e p st) c =
     (if c \<in> sockets st \<and> r \<in> rooms st c then inbox st c @ [(e, p)] else inbox st c)"
  by (simp_all add: io_to_emit_def)

lemmas effect_fields = console_log_fields console_error_fields io_emit_fields io_to_emit_fields

lemma socket_fields:
  "sockets (socket_join sid r st) = sockets st"
  "rooms (socket_join sid r st) = (rooms st)(sid := insert r (rooms st sid))"
  "calls (socket_join sid r st) = calls st" "inbox (socket_join sid r st) = inbox st"
  "console (socket_join sid r st) = console st"
  "sockets (socket_leave sid r st) = sockets st"
  "rooms (socket_leave sid r st) = (rooms st)(sid := rooms st sid - {r})"
  "calls (socket_leave sid r st) = calls st" "inbox (socket_leave sid r st) = inbox st"
  "console (socket_leave sid r st) = console st"
  "sockets (socket_open sid st) = insert sid (sockets st)"
  "rooms (socket_open sid st) = (rooms st)(sid := {})"
  "calls (socket_open sid st) = calls st" "inbox (socket_open sid st) = inbox st"
  "console (socket_open sid st) = console st"
  "sockets (socket_close sid st) = sockets st - {sid}"
  "rooms (socket_close sid st) = (rooms st)(sid := {})"
  "calls (socket_close sid st) = calls st" "inbox (socket_close sid st) = inbox st"
  "console (socket_close sid st) = console st"
  by (simp_all add: socket_join_def socket_leave_def socket_open_def socket_close_def)

lemmas handler_defs = on_connection_def on_join_inventory_updates_def on_join_inventory_alerts_def
  on_leave_inventory_updates_def on_leave_inventory_alerts_def on_disconnect_def

lemma handler_rooms:
  "rooms (on_connection sid st) = (rooms st)(sid := {})"
  "rooms (on_join_inventory_updates sid st) = rooms (socket_join sid ''inventory-updates'' st)"
  "rooms (on_join_inventory_alerts sid st) = rooms (socket_join sid ''inventory-alerts'' st)"
  "rooms (on_leave_inventory_updates sid st) = rooms (socket_leave sid ''inventory-updates'' st)"
  "rooms (on_leave_inventory_alerts sid st) = rooms (socket_leave sid ''inventory-alerts'' st)"
  "rooms (on_disconnect sid st) = (rooms st)(sid := {})"
  by (simp_all only: handler_defs console_log_fields socket_fields)

section \<open>The handler, case by case\<close>

text \<open>
  One equation for each way through the callback: the \<^verbatim>\<open>inventory\<close> branch, the
  \<^verbatim>\<open>inventory-alerts\<close> branch when the enrichment completes, the \<^verbatim>\<open>catch\<close> after a
  decoding failure, the \<^verbatim>\<open>catch\<close> after the TypeError that \<^verbatim>\<open>null\<close> causes, and a
  channel that matches neither branch.
\<close>

lemma on_message_inventory:
  assumes "JSON_parse message = Some data"
  shows "on_message JSON_parse now ''inventory'' message st =
           io_to_emit ''inventory-updates'' ''inventory-update'' data
             (io_emit ''inventory-update'' data
               (console_log [Txt ''Received message from inventory:'', Val data] st))"
  using assms by (simp add: on_message_def message_try_def Let_def)

lemma on_message_alert_emits:
  assumes "JSON_parse message = Some data" "alertData now data = Some alert"
  shows "on_message JSON_parse now ''inventory-alerts'' message st =
           io_to_emit ''inventory-alerts'' ''inventory-alert'' alert
             (io_emit ''inventory-alert'' alert
               (console_log [Txt ''Received message from inventory-alerts:'', Val data] st))"
  using assms by (simp add: on_message_def message_try_def Let_def)

lemma on_message_undecodable:
  assumes "JSON_parse message = None"
  shows "on_message JSON_parse now channel message st =
           console_log [Txt ''Raw message:'', Txt message]
             (console_error [Txt ''Error parsing message from Redis:'', Caught SyntaxError] st)"
  using assms by (simp add: on_message_def message_try_def)

lemma on_message_alert_null:
  assumes "JSON_parse message = Some Null"
  shows "on_message JSON_parse now ''inventory-alerts'' message st =
           console_log [Txt ''Raw message:'', Txt message]
             (console_error [Txt ''Error parsing message from Redis:'', Caught TypeError]
               (console_log [Txt ''Received message from inventory-alerts:'', Val Null] st))"
  using assms by (simp add: on_message_def message_try_def alertData_def Let_def)

lemma on_message_other_channel:
  assumes "JSON_parse message = Some data" "channel \<noteq> ''inventory''" "channel \<noteq> ''inventory-alerts''"
  shows "on_message JSON_parse now channel message st =
           console_log [Txt (''Received message from '' @ channel @ '':''), Val data] st"
  using assms by (simp add: on_message_def message_try_def Let_def)

lemma on_message_frame:
  "rooms (on_message JSON_parse now channel message st) = rooms st"
  "sockets (on_message JSON_parse now channel message st) = sockets st"
  by (simp_all add: on_message_def message_try_def Let_def effect_fields
        split: option.split)

lemma on_message_ignores_console:
  "calls (on_message JSON_parse now channel message (st\<lparr>console := c\<rparr>)) =
     calls (on_message JSON_parse now channel message st)"
  "inbox (on_message JSON_parse now channel message (st\<lparr>console := c\<rparr>)) =
     inbox (on_message JSON_parse now channel message st)"
  by (simp_all add: on_message_def message_try_def Let_def
        console_log_def console_error_def io_emit_def io_to_emit_def
        split: option.split cong: if_cong)

section \<open>The alert record\<close>

text \<open>
  For an object payload the fallbacks of the literal only matter where the payload has no
  such field: where it has one, the spread writes the payload's value over the fallback.
  So the literal followed by the spread is the record of defaults overlaid by the payload.
\<close>

lemma js_or_absent: "js_or Undefined d = d"
  by (simp add: js_or_def)

lemma overlay_absent:
  assumes "m k = None"
  shows "[''type'' \<mapsto> Str ''count_exceeded'',
         ''message'' \<mapsto> js_or (case m ''message'' of Some x \<Rightarrow> x | None \<Rightarrow> Undefined) (Str ''Item count exceeded the limit.''),
         ''current_count'' \<mapsto> (case m ''current_count'' of Some x \<Rightarrow> x | None \<Rightarrow> Undefined),
         ''threshold'' \<mapsto> (case m ''threshold'' of Some x \<Rightarrow> x | None \<Rightarrow> Undefined),
         ''severity'' \<mapsto> js_or (case m ''severity'' of Some x \<Rightarrow> x | None \<Rightarrow> Undefined) (Str ''warning''),
         ''timestamp'' \<mapsto> js_or (case m ''timestamp'' of Some x \<Rightarrow> x | None \<Rightarrow> Undefined) (Str now)] k
        = spec_default_record now m k"
proof -
  consider "k = ''message''" | "k = ''severity''" | "k = ''timestamp''"
    | "k \<noteq> ''message''" "k \<noteq> ''severity''" "k \<noteq> ''timestamp''" by blast
  then show ?thesis
  proof cases
    case 1 with assms show ?thesis by (simp add: spec_default_record_def js_or_absent)
  next
    case 2 with assms show ?thesis by (simp add: spec_default_record_def js_or_absent)
  next
    case 3 with assms show ?thesis by (simp add: spec_default_record_def js_or_absent)
  next
    case 4 then show ?thesis by (simp add: spec_default_record_def)
  qed
qed

lemma overlay_eq:
  "[''type'' \<mapsto> Str ''count_exceeded'',
         ''message'' \<mapsto> js_or (case m ''message'' of Some x \<Rightarrow> x | None \<Rightarrow> Undefined) (Str ''Item count exceeded the limit.''),
         ''current_count'' \<mapsto> (case m ''current_count'' of Some x \<Rightarrow> x | None \<Rightarrow> Undefined),
         ''threshold'' \<mapsto> (case m ''threshold'' of Some x \<Rightarrow> x | None \<Rightarrow> Undefined),
         ''severity'' \<mapsto> js_or (case m ''severity'' of Some x \<Rightarrow> x | None \<Rightarrow> Undefined) (Str ''warning''),
         ''timestamp'' \<mapsto> js_or (case m ''timestamp'' of Some x \<Rightarrow> x | None \<Rightarrow> Undefined) (Str now)] ++ m
        = spec_default_record now m ++ m" (is "?l ++ m = ?r ++ m")
proof (rule ext)
  fix k
  show "(?l ++ m) k = (?r ++ m) k"
  proof (cases "m k")
    case None
    then have "(?l ++ m) k = ?l k" "(?r ++ m) k = ?r k" by (simp_all only: map_add_def option.case)
    with overlay_absent [of m k now] None show ?thesis by (simp only:)
  next
    case (Some v)
    then show ?thesis by (simp only: map_add_def option.case)
  qed
qed

lemma alertData_Obj:
  "alertData now (Obj m) = Some (Obj (spec_default_record now m ++ m))"
  unfolding alertData_def by (simp add: overlay_eq del: fun_upd_apply)


lemma overlay_lookup:
  "(spec_default_record now m ++ m) k = (case m k of Some v \<Rightarrow> Some v | None \<Rightarrow> spec_default_record now m k)"
  by (simp only: map_add_def)


lemma count_payload_record:
  "spec_default_record now [''current_count'' \<mapsto> c, ''threshold'' \<mapsto> t]
     ++ [''current_count'' \<mapsto> c, ''threshold'' \<mapsto> t] =
   [''type'' \<mapsto> Str ''count_exceeded'',
    ''message'' \<mapsto> Str ''Item count exceeded the limit.'',
    ''current_count'' \<mapsto> c,
    ''threshold'' \<mapsto> t,
    ''severity'' \<mapsto> Str ''warning'',
    ''timestamp'' \<mapsto> Str now]" (is "?l = ?r")
proof (rule ext)
  fix k
  consider "k = ''current_count''" | "k = ''threshold''"
    | "k \<noteq> ''current_count''" "k \<noteq> ''threshold''" by blast
  then show "?l k = ?r k"
  proof cases
    case 1 then show ?thesis by (simp add: spec_default_record_def)
  next
    case 2 then show ?thesis by (simp add: spec_default_record_def)
  next
    case 3 then show ?thesis by (simp add: spec_default_record_def map_add_def)
  qed
qed

lemma alertData_total:
  assumes "data \<noteq> Null" "data \<noteq> Undefined"
  shows "\<exists>alert. alertData now data = Some alert"
  using assms by (cases data) (simp_all add: alertData_def)

section \<open>Rooms\<close>

lemma join_twice: "rooms (socket_join sid room (socket_join sid room st)) = rooms (socket_join sid room st)"
  by (simp add: socket_fields)

lemma join_member: "room \<in> rooms st sid \<Longrightarrow> rooms (socket_join sid room st) = rooms st"
  by (simp add: socket_fields insert_absorb)

lemma leave_nonmember: "room \<notin> rooms st sid \<Longrightarrow> rooms (socket_leave sid room st) = rooms st"
  by (simp add: socket_fields)

lemma socket_rooms_cong:
  "rooms st = rooms st' \<Longrightarrow> rooms (socket_join sid room st) = rooms (socket_join sid room st')"
  "rooms st = rooms st' \<Longrightarrow> rooms (socket_leave sid room st) = rooms (socket_leave sid room st')"
  by (simp_all only: socket_fields)

lemma other_rooms:
  assumes "other \<noteq> sid"
  shows "rooms (on_connection sid st) other = rooms st other"
    "rooms (on_join_inventory_updates sid st) other = rooms st other"
    "rooms (on_join_inventory_alerts sid st) other = rooms st other"
    "rooms (on_leave_inventory_updates sid st) other = rooms st other"
    "rooms (on_leave_inventory_alerts sid st) other = rooms st other"
    "rooms (on_disconnect sid st) other = rooms st other"
  using assms by (simp_all add: handler_rooms socket_fields)

section \<open>The examples, evaluated\<close>

lemma two_clients_fields:
  "sockets two_clients = {''s1'', ''s2''}"
  "rooms two_clients ''s1'' = {''inventory-updates'', ''inventory-alerts''}"
  "rooms two_clients ''s2'' = {}"
  "calls two_clients = []"
  "inbox two_clients = (\<lambda>sid. [])"
  by (auto simp add: two_clients_def initial_server_def handler_defs console_log_fields socket_fields)

lemma sample_parse_values:
  \<open>sample_JSON_parse ''null'' = Some Null\<close>
  \<open>sample_JSON_parse ''oops'' = None\<close>
  \<open>sample_JSON_parse ''{"sku":"A1","qty":7}'' = Some (Obj [''sku'' \<mapsto> Str ''A1'', ''qty'' \<mapsto> Num (Finite 7)])\<close>
  \<open>sample_JSON_parse ''{"current_count":150,"threshold":100}'' =
     Some (Obj [''current_count'' \<mapsto> Num (Finite 150), ''threshold'' \<mapsto> Num (Finite 100)])\<close>
  \<open>sample_JSON_parse ''{"severity":"critical","type":"custom"}'' =
     Some (Obj [''severity'' \<mapsto> Str ''critical'', ''type'' \<mapsto> Str ''custom''])\<close>
  \<open>sample_JSON_parse ''{"severity":""}'' = Some (Obj [''severity'' \<mapsto> Str ''''])\<close>
  by (simp_all add: sample_JSON_parse_def)

section \<open>The claims\<close>

subsection \<open>C1: the alert record is the defaults overlaid by the payload\<close>

text \<open>
  C1. For every message on \<^verbatim>\<open>inventory-alerts\<close> whose decoded payload is an object with
  fields \<open>m\<close>, the record \<open>alertData\<close> builds, and both emissions carry, is the record of
  defaults (type \<^verbatim>\<open>count_exceeded\<close>, the default message, severity \<^verbatim>\<open>warning\<close>, the
  enrichment time as timestamp, \<^verbatim>\<open>current_count\<close> and \<^verbatim>\<open>threshold\<close> verbatim) overlaid by
  the payload: every field the payload carries has the payload's value, \<^verbatim>\<open>type\<close>
  included, and every other field has its default.
\<close>

theorem alert_record_is_defaults_overlaid_by_payload:
  assumes "JSON_parse message = Some (Obj m)"
  shows "alertData now (Obj m) = Some (Obj (spec_default_record now m ++ m))
       \<and> calls (on_message JSON_parse now ''inventory-alerts'' message st) =
           calls st @ [Emit All_clients ''inventory-alert'' (Obj (spec_default_record now m ++ m)),
                       Emit (In_room ''inventory-alerts'') ''inventory-alert''
                         (Obj (spec_default_record now m ++ m))]
       \<and> (\<forall>k v. m k = Some v \<longrightarrow> (spec_default_record now m ++ m) k = Some v)
       \<and> (\<forall>k. m k = None \<longrightarrow> (spec_default_record now m ++ m) k = spec_default_record now m k)"
proof -
  have "calls (on_message JSON_parse now ''inventory-alerts'' message st) =
           calls st @ [Emit All_clients ''inventory-alert'' (Obj (spec_default_record now m ++ m)),
                       Emit (In_room ''inventory-alerts'') ''inventory-alert''
                         (Obj (spec_default_record now m ++ m))]"
    by (simp add: on_message_alert_emits [of JSON_parse message "Obj m", OF assms alertData_Obj]
          effect_fields)
  moreover have "\<forall>k v. m k = Some v \<longrightarrow> (spec_default_record now m ++ m) k = Some v"
    by (simp add: overlay_lookup)
  moreover have "\<forall>k. m k = None \<longrightarrow> (spec_default_record now m ++ m) k = spec_default_record now m k"
    by (simp add: overlay_lookup)
  ultimately show ?thesis using alertData_Obj by blast
qed

text \<open>
  The example of the claim: the payload \<^verbatim>\<open>{severity: "critical", type: "custom"}\<close> is
  emitted with severity \<^verbatim>\<open>critical\<close> and type \<^verbatim>\<open>custom\<close>, and with the default message.
\<close>

theorem alert_record_is_defaults_overlaid_by_payload_witness:
  \<open>calls (on_message sample_JSON_parse sample_now ''inventory-alerts''
            ''{"severity":"critical","type":"custom"}'' two_clients) =
     [Emit All_clients ''inventory-alert''
        (Obj (spec_default_record sample_now [''severity'' \<mapsto> Str ''critical'', ''type'' \<mapsto> Str ''custom'']
                ++ [''severity'' \<mapsto> Str ''critical'', ''type'' \<mapsto> Str ''custom''])),
      Emit (In_room ''inventory-alerts'') ''inventory-alert''
        (Obj (spec_default_record sample_now [''severity'' \<mapsto> Str ''critical'', ''type'' \<mapsto> Str ''custom'']
                ++ [''severity'' \<mapsto> Str ''critical'', ''type'' \<mapsto> Str ''custom'']))]
   \<and> (spec_default_record sample_now [''severity'' \<mapsto> Str ''critical'', ''type'' \<mapsto> Str ''custom'']
         ++ [''severity'' \<mapsto> Str ''critical'', ''type'' \<mapsto> Str ''custom'']) ''severity''
       = Some (Str ''critical'')
   \<and> (spec_default_record sample_now [''severity'' \<mapsto> Str ''critical'', ''type'' \<mapsto> Str ''custom'']
         ++ [''severity'' \<mapsto> Str ''critical'', ''type'' \<mapsto> Str ''custom'']) ''type''
       = Some (Str ''custom'')
   \<and> (spec_default_record sample_now [''severity'' \<mapsto> Str ''critical'', ''type'' \<mapsto> Str ''custom'']
         ++ [''severity'' \<mapsto> Str ''critical'', ''type'' \<mapsto> Str ''custom'']) ''message''
       = Some (Str ''Item count exceeded the limit.'')\<close>
  using alert_record_is_defaults_overlaid_by_payload
          [where JSON_parse = sample_JSON_parse and now = sample_now and st = two_clients,
           OF sample_parse_values(5)]
  by (simp add: two_clients_fields spec_default_record_def)

subsection \<open>C2: a payload with the two counts only\<close>

text \<open>
  C2. For a message on \<^verbatim>\<open>inventory-alerts\<close> whose decoded payload is
  \<^verbatim>\<open>{current_count: 150, threshold: 100}\<close>, both emissions carry the record with the
  default message, severity \<^verbatim>\<open>warning\<close>, type \<^verbatim>\<open>count_exceeded\<close>, the two counts 150
  and 100, and the enrichment time as timestamp.
\<close>

theorem count_payload_gets_defaults:
  assumes "JSON_parse message =
             Some (Obj [''current_count'' \<mapsto> Num (Finite 150), ''threshold'' \<mapsto> Num (Finite 100)])"
  shows "calls (on_message JSON_parse now ''inventory-alerts'' message st) =
           calls st @
           [Emit All_clients ''inventory-alert''
              (Obj [''type'' \<mapsto> Str ''count_exceeded'',
                    ''message'' \<mapsto> Str ''Item count exceeded the limit.'',
                    ''current_count'' \<mapsto> Num (Finite 150),
                    ''threshold'' \<mapsto> Num (Finite 100),
                    ''severity'' \<mapsto> Str ''warning'',
                    ''timestamp'' \<mapsto> Str now]),
            Emit (In_room ''inventory-alerts'') ''inventory-alert''
              (Obj [''type'' \<mapsto> Str ''count_exceeded'',
                    ''message'' \<mapsto> Str ''Item count exceeded the limit.'',
                    ''current_count'' \<mapsto> Num (Finite 150),
                    ''threshold'' \<mapsto> Num (Finite 100),
                    ''severity'' \<mapsto> Str ''warning'',
                    ''timestamp'' \<mapsto> Str now])]"
proof -
  have "alertData now (Obj [''current_count'' \<mapsto> Num (Finite 150), ''threshold'' \<mapsto> Num (Finite 100)])
        = Some (Obj [''type'' \<mapsto> Str ''count_exceeded'',
                    ''message'' \<mapsto> Str ''Item count exceeded the limit.'',
                    ''current_count'' \<mapsto> Num (Finite 150),
                    ''threshold'' \<mapsto> Num (Finite 100),
                    ''severity'' \<mapsto> Str ''warning'',
                    ''timestamp'' \<mapsto> Str now])"
    by (simp only: alertData_Obj count_payload_record)
  from on_message_alert_emits [of JSON_parse message _ now, OF assms this] show ?thesis
    by (simp only: effect_fields append_assoc append.simps)
qed

theorem count_payload_gets_defaults_witness:
  \<open>map emit_to (calls (on_message sample_JSON_parse sample_now ''inventory-alerts''
            ''{"current_count":150,"threshold":100}'' two_clients)) =
     [All_clients, In_room ''inventory-alerts'']
   \<and> map (\<lambda>e. own_props (emit_payload e) ''timestamp'')
        (calls (on_message sample_JSON_parse sample_now ''inventory-alerts''
            ''{"current_count":150,"threshold":100}'' two_clients)) =
     [Some (Str ''2025-06-29T10:30:00.000Z''), Some (Str ''2025-06-29T10:30:00.000Z'')]
   \<and> map (\<lambda>e. own_props (emit_payload e) ''message'')
        (calls (on_message sample_JSON_parse sample_now ''inventory-alerts''
            ''{"current_count":150,"threshold":100}'' two_clients)) =
     [Some (Str ''Item count exceeded the limit.''), Some (Str ''Item count exceeded the limit.'')]\<close>
  using count_payload_gets_defaults
          [where JSON_parse = sample_JSON_parse and now = sample_now and st = two_clients,
           OF sample_parse_values(4)]
  by (simp add: two_clients_fields sample_now_def)

subsection \<open>C3: an inventory message is emitted twice\<close>

text \<open>
  C3. For every message on \<^verbatim>\<open>inventory\<close> that decodes to an object, the handler makes
  exactly two emissions of \<^verbatim>\<open>inventory-update\<close>, both carrying the decoded object
  unchanged: one to all clients, one to the room \<^verbatim>\<open>inventory-updates\<close>. A connected client
  in that room is sent the event twice, a connected client outside it once.
\<close>

theorem inventory_message_emitted_twice:
  assumes "JSON_parse message = Some (Obj m)"
  shows "calls (on_message JSON_parse now ''inventory'' message st) =
           calls st @ [Emit All_clients ''inventory-update'' (Obj m),
                       Emit (In_room ''inventory-updates'') ''inventory-update'' (Obj m)]
       \<and> (\<forall>c \<in> sockets st.
            inbox (on_message JSON_parse now ''inventory'' message st) c =
              inbox st c @
              (if ''inventory-updates'' \<in> rooms st c
               then [(''inventory-update'', Obj m), (''inventory-update'', Obj m)]
               else [(''inventory-update'', Obj m)]))"
  by (simp add: on_message_inventory [of JSON_parse message "Obj m", OF assms] effect_fields)

theorem inventory_message_emitted_twice_witness:
  \<open>calls (on_message sample_JSON_parse sample_now ''inventory'' ''{"sku":"A1","qty":7}'' two_clients) =
     [Emit All_clients ''inventory-update'' (Obj [''sku'' \<mapsto> Str ''A1'', ''qty'' \<mapsto> Num (Finite 7)]),
      Emit (In_room ''inventory-updates'') ''inventory-update''
        (Obj [''sku'' \<mapsto> Str ''A1'', ''qty'' \<mapsto> Num (Finite 7)])]
   \<and> inbox (on_message sample_JSON_parse sample_now ''inventory'' ''{"sku":"A1","qty":7}'' two_clients) ''s1'' =
     [(''inventory-update'', Obj [''sku'' \<mapsto> Str ''A1'', ''qty'' \<mapsto> Num (Finite 7)]),
      (''inventory-update'', Obj [''sku'' \<mapsto> Str ''A1'', ''qty'' \<mapsto> Num (Finite 7)])]
   \<and> inbox (on_message sample_JSON_parse sample_now ''inventory'' ''{"sku":"A1","qty":7}'' two_clients) ''s2'' =
     [(''inventory-update'', Obj [''sku'' \<mapsto> Str ''A1'', ''qty'' \<mapsto> Num (Finite 7)])]\<close>
  using inventory_message_emitted_twice
          [where JSON_parse = sample_JSON_parse and now = sample_now and st = two_clients,
           OF sample_parse_values(3)]
  by (simp add: two_clients_fields)

subsection \<open>C4: a message that does not decode\<close>

text \<open>
  C4 says that on a decoding failure the handler logs the raw payload and the channel. The
  \<^verbatim>\<open>catch\<close> block logs the error and the raw payload, and nothing else: for the text
  \<^verbatim>\<open>oops\<close> the console holds those two calls, none of which names the channel, and it
  holds the same two whichever channel the text came from.
\<close>

theorem undecodable_message_logs_no_channel:
  "console (on_message sample_JSON_parse sample_now ''inventory-alerts'' ''oops'' initial_server) =
     [Console_error [Txt ''Error parsing message from Redis:'', Caught SyntaxError],
      Console_log [Txt ''Raw message:'', Txt ''oops'']]
   \<and> console (on_message sample_JSON_parse sample_now ''inventory'' ''oops'' initial_server) =
     console (on_message sample_JSON_parse sample_now ''inventory-alerts'' ''oops'' initial_server)"
  by (simp add: on_message_undecodable [of sample_JSON_parse "''oops''", OF sample_parse_values(2)]
        effect_fields initial_server_def)

text \<open>
  C4, amended. For every message that fails to decode, on any channel, the handler logs
  the caught error and the raw payload, and changes nothing else: no emission is made, no
  client is sent anything, and the handler returns the state (it does not raise). The next
  message on the channel is then processed as if the undecodable one had not arrived: it
  causes the same emissions and the same deliveries.
\<close>

theorem undecodable_message_is_logged_and_dropped:
  assumes "JSON_parse message = None"
  shows "on_message JSON_parse now channel message st =
           st\<lparr>console := console st @
              [Console_error [Txt ''Error parsing message from Redis:'', Caught SyntaxError],
               Console_log [Txt ''Raw message:'', Txt message]]\<rparr>
       \<and> calls (on_message JSON_parse now channel message st) = calls st
       \<and> inbox (on_message JSON_parse now channel message st) = inbox st
       \<and> calls (on_message JSON_parse now' channel message'
                  (on_message JSON_parse now channel message st)) =
           calls (on_message JSON_parse now' channel message' st)
       \<and> inbox (on_message JSON_parse now' channel message'
                  (on_message JSON_parse now channel message st)) =
           inbox (on_message JSON_parse now' channel message' st)"
proof -
  have eq: "on_message JSON_parse now channel message st =
           st\<lparr>console := console st @
              [Console_error [Txt ''Error parsing message from Redis:'', Caught SyntaxError],
               Console_log [Txt ''Raw message:'', Txt message]]\<rparr>"
    by (simp add: on_message_undecodable [of JSON_parse message, OF assms]
          console_log_def console_error_def)
  show ?thesis
    by (simp add: eq on_message_ignores_console)
qed

theorem undecodable_message_is_logged_and_dropped_witness:
  \<open>on_message sample_JSON_parse sample_now ''inventory'' ''oops'' two_clients =
     two_clients\<lparr>console := console two_clients @
        [Console_error [Txt ''Error parsing message from Redis:'', Caught SyntaxError],
         Console_log [Txt ''Raw message:'', Txt ''oops'']]\<rparr>
   \<and> inbox (on_message sample_JSON_parse sample_now ''inventory'' ''{"sku":"A1","qty":7}''
             (on_message sample_JSON_parse sample_now ''inventory'' ''oops'' two_clients)) ''s2'' =
     [(''inventory-update'', Obj [''sku'' \<mapsto> Str ''A1'', ''qty'' \<mapsto> Num (Finite 7)])]\<close>
proof -
  note dropped = undecodable_message_is_logged_and_dropped
          [where JSON_parse = sample_JSON_parse and message = "''oops''" and now = sample_now
             and st = two_clients and channel = "''inventory''" and now' = sample_now,
           OF sample_parse_values(2)]
  note next_one = on_message_inventory
          [where JSON_parse = sample_JSON_parse and now = sample_now and st = two_clients,
           OF sample_parse_values(3)]
  from dropped have
    \<open>inbox (on_message sample_JSON_parse sample_now ''inventory'' ''{"sku":"A1","qty":7}''
             (on_message sample_JSON_parse sample_now ''inventory'' ''oops'' two_clients)) =
     inbox (on_message sample_JSON_parse sample_now ''inventory'' ''{"sku":"A1","qty":7}''
             two_clients)\<close>
    by blast
  then have
    \<open>inbox (on_message sample_JSON_parse sample_now ''inventory'' ''{"sku":"A1","qty":7}''
             (on_message sample_JSON_parse sample_now ''inventory'' ''oops'' two_clients)) ''s2'' =
     [(''inventory-update'', Obj [''sku'' \<mapsto> Str ''A1'', ''qty'' \<mapsto> Num (Finite 7)])]\<close>
    by (simp add: next_one two_clients_fields effect_fields)
  with dropped show ?thesis by blast
qed

subsection \<open>C5: a channel the handler has no branch for\<close>

text \<open>
  C5 says that such a message is silently ignored. It is not silent: the
  \<^verbatim>\<open>console.log\<close> of line 53 precedes the test of the channel, so a message that decodes is
  logged whatever its channel. For a message on the channel \<^verbatim>\<open>orders\<close> the console of a
  server that had logged nothing holds the line \<^verbatim>\<open>Received message from orders:\<close> with
  the decoded payload.
\<close>

theorem unknown_channel_message_is_logged:
  \<open>console (on_message sample_JSON_parse sample_now ''orders'' ''{"sku":"A1","qty":7}'' initial_server) =
     [Console_log [Txt ''Received message from orders:'',
                   Val (Obj [''sku'' \<mapsto> Str ''A1'', ''qty'' \<mapsto> Num (Finite 7)])]]
   \<and> console (on_message sample_JSON_parse sample_now ''orders'' ''{"sku":"A1","qty":7}'' initial_server)
       \<noteq> console initial_server\<close>
proof -
  have ch: "''orders'' \<noteq> ''inventory''" "''orders'' \<noteq> ''inventory-alerts''"
    by simp_all
  note run = on_message_other_channel
      [where JSON_parse = sample_JSON_parse and now = sample_now and st = initial_server,
       OF sample_parse_values(3) ch]
  have start: "console initial_server = []"
    by (simp add: initial_server_def)
  show ?thesis
    by (simp add: run console_log_fields start)
qed

text \<open>
  C5, amended. For every message that decodes and arrives on a channel other than
  \<^verbatim>\<open>inventory\<close> and \<^verbatim>\<open>inventory-alerts\<close>, no emission is made and no client is sent
  anything. The only effect of the handler is the \<^verbatim>\<open>console.log\<close> of the received
  message, with the channel and the decoded payload.
\<close>

theorem unknown_channel_emits_nothing:
  assumes "JSON_parse message = Some data"
    and "channel \<noteq> ''inventory''" and "channel \<noteq> ''inventory-alerts''"
  shows "calls (on_message JSON_parse now channel message st) = calls st
       \<and> inbox (on_message JSON_parse now channel message st) = inbox st
       \<and> on_message JSON_parse now channel message st =
           console_log [Txt (''Received message from '' @ channel @ '':''), Val data] st"
  by (simp add: on_message_other_channel [of JSON_parse message data, OF assms] effect_fields)

theorem unknown_channel_emits_nothing_witness:
  \<open>calls (on_message sample_JSON_parse sample_now ''orders'' ''{"sku":"A1","qty":7}'' two_clients) = []
   \<and> inbox (on_message sample_JSON_parse sample_now ''orders'' ''{"sku":"A1","qty":7}'' two_clients) ''s1'' = []\<close>
  using unknown_channel_emits_nothing
          [where JSON_parse = sample_JSON_parse and now = sample_now and st = two_clients
             and channel = "''orders''",
           OF sample_parse_values(3)]
  by (simp add: two_clients_fields effect_fields)

subsection \<open>C6: joining twice, leaving a room not joined\<close>

text \<open>
  C6. For every connection and every room, joining a room the connection is in leaves the
  memberships unchanged, so joining twice is joining once, and leaving a room the
  connection is not in leaves them unchanged; this holds of the four socket handlers. A
  client that joins \<^verbatim>\<open>inventory-alerts\<close> twice and leaves once is not in that room.
\<close>

theorem join_idempotent_leave_noop:
  "(room \<in> rooms st sid \<longrightarrow> rooms (socket_join sid room st) = rooms st)
   \<and> rooms (socket_join sid room (socket_join sid room st)) = rooms (socket_join sid room st)
   \<and> (room \<notin> rooms st sid \<longrightarrow> rooms (socket_leave sid room st) = rooms st)
   \<and> rooms (on_join_inventory_updates sid (on_join_inventory_updates sid st)) =
       rooms (on_join_inventory_updates sid st)
   \<and> rooms (on_join_inventory_alerts sid (on_join_inventory_alerts sid st)) =
       rooms (on_join_inventory_alerts sid st)
   \<and> (''inventory-updates'' \<notin> rooms st sid \<longrightarrow> rooms (on_leave_inventory_updates sid st) = rooms st)
   \<and> (''inventory-alerts'' \<notin> rooms st sid \<longrightarrow> rooms (on_leave_inventory_alerts sid st) = rooms st)
   \<and> ''inventory-alerts'' \<notin>
       rooms (on_leave_inventory_alerts sid
               (on_join_inventory_alerts sid (on_join_inventory_alerts sid st))) sid"
proof (intro conjI impI)
  show "rooms (on_join_inventory_updates sid (on_join_inventory_updates sid st)) =
       rooms (on_join_inventory_updates sid st)"
    using join_twice [of sid "''inventory-updates''" st]
      socket_rooms_cong(1) [OF handler_rooms(2) [of sid st], of sid "''inventory-updates''"]
    by (simp only: handler_rooms)
  show "rooms (on_join_inventory_alerts sid (on_join_inventory_alerts sid st)) =
       rooms (on_join_inventory_alerts sid st)"
    using join_twice [of sid "''inventory-alerts''" st]
      socket_rooms_cong(1) [OF handler_rooms(3) [of sid st], of sid "''inventory-alerts''"]
    by (simp only: handler_rooms)
  show "''inventory-alerts'' \<notin>
       rooms (on_leave_inventory_alerts sid
               (on_join_inventory_alerts sid (on_join_inventory_alerts sid st))) sid"
    by (simp only: handler_rooms socket_fields fun_upd_same) simp
qed (simp_all add: handler_rooms join_twice join_member leave_nonmember del: fun_upd_apply)

theorem join_idempotent_leave_noop_witness:
  "rooms (on_join_inventory_alerts ''s1'' two_clients) = rooms two_clients
   \<and> rooms (on_leave_inventory_alerts ''s2'' two_clients) = rooms two_clients
   \<and> ''inventory-alerts'' \<notin>
       rooms (on_leave_inventory_alerts ''s2''
               (on_join_inventory_alerts ''s2'' (on_join_inventory_alerts ''s2'' two_clients))) ''s2''"
proof -
  note t1 = join_idempotent_leave_noop [of "''inventory-alerts''" two_clients "''s1''"]
  note t2 = join_idempotent_leave_noop [of "''inventory-alerts''" two_clients "''s2''"]
  have m1: "''inventory-alerts'' \<in> rooms two_clients ''s1''"
    by (simp add: two_clients_fields)
  have m2: "''inventory-alerts'' \<notin> rooms two_clients ''s2''"
    by (simp add: two_clients_fields)
  from t1 m1 have "rooms (socket_join ''s1'' ''inventory-alerts'' two_clients) = rooms two_clients"
    by blast
  then have "rooms (on_join_inventory_alerts ''s1'' two_clients) = rooms two_clients"
    by (simp only: handler_rooms)
  moreover from t2 m2 have "rooms (on_leave_inventory_alerts ''s2'' two_clients) = rooms two_clients"
    by blast
  ultimately show ?thesis using t2 by blast
qed

subsection \<open>C7: handling a broker message leaves the rooms alone\<close>

text \<open>
  C7. Handling a broker message, whatever the channel and the payload, leaves the rooms of
  every connection and the set of connections as they were. A connection's own requests
  (connect, the two joins, the two leaves, disconnect) change the rooms of no other
  connection.
\<close>

theorem broker_message_leaves_rooms_unchanged:
  "rooms (on_message JSON_parse now channel message st) = rooms st
   \<and> sockets (on_message JSON_parse now channel message st) = sockets st
   \<and> (\<forall>other. other \<noteq> sid \<longrightarrow>
         rooms (on_connection sid st) other = rooms st other
       \<and> rooms (on_join_inventory_updates sid st) other = rooms st other
       \<and> rooms (on_join_inventory_alerts sid st) other = rooms st other
       \<and> rooms (on_leave_inventory_updates sid st) other = rooms st other
       \<and> rooms (on_leave_inventory_alerts sid st) other = rooms st other
       \<and> rooms (on_disconnect sid st) other = rooms st other)"
  by (intro conjI allI impI) (simp_all add: on_message_frame other_rooms)

theorem broker_message_leaves_rooms_unchanged_witness:
  \<open>rooms (on_message sample_JSON_parse sample_now ''inventory-alerts''
            ''{"current_count":150,"threshold":100}'' two_clients) ''s1'' =
     {''inventory-updates'', ''inventory-alerts''}
   \<and> rooms (on_leave_inventory_alerts ''s2'' two_clients) ''s1'' =
     {''inventory-updates'', ''inventory-alerts''}
   \<and> rooms (on_disconnect ''s2'' two_clients) ''s1'' = {''inventory-updates'', ''inventory-alerts''}\<close>
proof -
  note t = broker_message_leaves_rooms_unchanged
          [where JSON_parse = sample_JSON_parse and now = sample_now
             and channel = "''inventory-alerts''" and st = two_clients and sid = "''s2''"]
  have d: "''s1'' \<noteq> ''s2''" by simp
  note others = t [THEN conjunct2, THEN conjunct2, THEN spec, of "''s1''", THEN mp, OF d]
  have a: \<open>rooms (on_message sample_JSON_parse sample_now ''inventory-alerts''
            ''{"current_count":150,"threshold":100}'' two_clients) = rooms two_clients\<close>
    by (rule t [THEN conjunct1])
  have b: "rooms (on_leave_inventory_alerts ''s2'' two_clients) ''s1'' = rooms two_clients ''s1''"
    by (rule others [THEN conjunct2, THEN conjunct2, THEN conjunct2, THEN conjunct2, THEN conjunct1])
  have c: "rooms (on_disconnect ''s2'' two_clients) ''s1'' = rooms two_clients ''s1''"
    by (rule others [THEN conjunct2, THEN conjunct2, THEN conjunct2, THEN conjunct2, THEN conjunct2])
  show ?thesis
    by (simp only: a b c two_clients_fields simp_thms)
qed

subsection \<open>C8: a field that is present but falsy\<close>




subsection \<open>C9: the payload null\<close>

text \<open>
  C9. When the text \<^verbatim>\<open>null\<close> decodes to \<^verbatim>\<open>null\<close>: received on \<^verbatim>\<open>inventory-alerts\<close> it
  causes no emission and no delivery (the read of \<^verbatim>\<open>data.message\<close> throws a TypeError,
  which the \<^verbatim>\<open>catch\<close> block logs); received on \<^verbatim>\<open>inventory\<close> it is emitted twice as
  \<^verbatim>\<open>inventory-update\<close> with the payload \<^verbatim>\<open>null\<close>, and delivered like any other update.
\<close>

theorem null_dropped_on_alerts_delivered_on_inventory:
  assumes "JSON_parse ''null'' = Some Null"
  shows "calls (on_message JSON_parse now ''inventory-alerts'' ''null'' st) = calls st
       \<and> inbox (on_message JSON_parse now ''inventory-alerts'' ''null'' st) = inbox st
       \<and> console (on_message JSON_parse now ''inventory-alerts'' ''null'' st) =
           console st @
           [Console_log [Txt ''Received message from inventory-alerts:'', Val Null],
            Console_error [Txt ''Error parsing message from Redis:'', Caught TypeError],
            Console_log [Txt ''Raw message:'', Txt ''null'']]
       \<and> calls (on_message JSON_parse now ''inventory'' ''null'' st) =
           calls st @ [Emit All_clients ''inventory-update'' Null,
                       Emit (In_room ''inventory-updates'') ''inventory-update'' Null]
       \<and> (\<forall>c \<in> sockets st.
            inbox (on_message JSON_parse now ''inventory'' ''null'' st) c =
              inbox st c @
              (if ''inventory-updates'' \<in> rooms st c
               then [(''inventory-update'', Null), (''inventory-update'', Null)]
               else [(''inventory-update'', Null)]))"
  by (simp add: on_message_alert_null [of JSON_parse "''null''", OF assms]
        on_message_inventory [of JSON_parse "''null''" Null, OF assms] effect_fields)

theorem null_dropped_on_alerts_delivered_on_inventory_witness:
  "calls (on_message sample_JSON_parse sample_now ''inventory-alerts'' ''null'' two_clients) = []
   \<and> inbox (on_message sample_JSON_parse sample_now ''inventory-alerts'' ''null'' two_clients) ''s1'' = []
   \<and> calls (on_message sample_JSON_parse sample_now ''inventory'' ''null'' two_clients) =
       [Emit All_clients ''inventory-update'' Null,
        Emit (In_room ''inventory-updates'') ''inventory-update'' Null]
   \<and> inbox (on_message sample_JSON_parse sample_now ''inventory'' ''null'' two_clients) ''s1'' =
       [(''inventory-update'', Null), (''inventory-update'', Null)]
   \<and> inbox (on_message sample_JSON_parse sample_now ''inventory'' ''null'' two_clients) ''s2'' =
       [(''inventory-update'', Null)]"
  using null_dropped_on_alerts_delivered_on_inventory
          [where JSON_parse = sample_JSON_parse and now = sample_now and st = two_clients,
           OF sample_parse_values(1)]
  by (simp add: two_clients_fields)

subsection \<open>C10: both alert emissions carry one record\<close>

text \<open>
  C10. For one message on \<^verbatim>\<open>inventory-alerts\<close> whose payload is neither \<^verbatim>\<open>null\<close> nor
  \<^verbatim>\<open>undefined\<close>, the enrichment yields one record, computed once with one reading of the
  clock, and the emission to all clients and the emission to the room carry that same
  record; a connected client in the room \<^verbatim>\<open>inventory-alerts\<close> is sent it twice, so the
  two payloads it receives are equal, timestamp included.
\<close>

theorem alert_emissions_carry_one_record:
  assumes "JSON_parse message = Some data" and "data \<noteq> Null" and "data \<noteq> Undefined"
  shows "\<exists>alert. alertData now data = Some alert
       \<and> calls (on_message JSON_parse now ''inventory-alerts'' message st) =
           calls st @ [Emit All_clients ''inventory-alert'' alert,
                       Emit (In_room ''inventory-alerts'') ''inventory-alert'' alert]
       \<and> (\<forall>c \<in> sockets st. ''inventory-alerts'' \<in> rooms st c \<longrightarrow>
            inbox (on_message JSON_parse now ''inventory-alerts'' message st) c =
              inbox st c @ [(''inventory-alert'', alert), (''inventory-alert'', alert)])"
proof -
  from alertData_total [OF assms(2,3)] obtain alert where a: "alertData now data = Some alert" ..
  note run = on_message_alert_emits [of JSON_parse message data now alert, OF assms(1) a]
  have "calls (on_message JSON_parse now ''inventory-alerts'' message st) =
           calls st @ [Emit All_clients ''inventory-alert'' alert,
                       Emit (In_room ''inventory-alerts'') ''inventory-alert'' alert]"
    by (simp add: run effect_fields)
  moreover have "\<forall>c \<in> sockets st. ''inventory-alerts'' \<in> rooms st c \<longrightarrow>
            inbox (on_message JSON_parse now ''inventory-alerts'' message st) c =
              inbox st c @ [(''inventory-alert'', alert), (''inventory-alert'', alert)]"
    by (simp add: run effect_fields)
  ultimately show ?thesis using a by (intro exI [of _ alert] conjI)
qed

theorem alert_emissions_carry_one_record_witness:
  \<open>\<exists>alert. inbox (on_message sample_JSON_parse sample_now ''inventory-alerts''
                    ''{"current_count":150,"threshold":100}'' two_clients) ''s1'' =
             [(''inventory-alert'', alert), (''inventory-alert'', alert)]
         \<and> map emit_payload (calls (on_message sample_JSON_parse sample_now ''inventory-alerts''
                    ''{"current_count":150,"threshold":100}'' two_clients)) = [alert, alert]
         \<and> own_props alert ''timestamp'' = Some (Str sample_now)\<close>
proof -
  have nn: "Obj [''current_count'' \<mapsto> Num (Finite 150), ''threshold'' \<mapsto> Num (Finite 100)] \<noteq> Null"
    "Obj [''current_count'' \<mapsto> Num (Finite 150), ''threshold'' \<mapsto> Num (Finite 100)] \<noteq> Undefined"
    by (rule jsval.distinct)+
  from alert_emissions_carry_one_record
          [where JSON_parse = sample_JSON_parse and now = sample_now and st = two_clients,
           OF sample_parse_values(4) nn]
  obtain alert where
    all: \<open>alertData sample_now
          (Obj [''current_count'' \<mapsto> Num (Finite 150), ''threshold'' \<mapsto> Num (Finite 100)]) = Some alert
      \<and> calls (on_message sample_JSON_parse sample_now ''inventory-alerts''
                    ''{"current_count":150,"threshold":100}'' two_clients) =
           calls two_clients @ [Emit All_clients ''inventory-alert'' alert,
                       Emit (In_room ''inventory-alerts'') ''inventory-alert'' alert]
      \<and> (\<forall>c \<in> sockets two_clients. ''inventory-alerts'' \<in> rooms two_clients c \<longrightarrow>
            inbox (on_message sample_JSON_parse sample_now ''inventory-alerts''
                    ''{"current_count":150,"threshold":100}'' two_clients) c =
              inbox two_clients c @ [(''inventory-alert'', alert), (''inventory-alert'', alert)])\<close> ..
  note a = all [THEN conjunct1]
  note c = all [THEN conjunct2, THEN conjunct1]
  note i = all [THEN conjunct2, THEN conjunct2, THEN bspec, of "''s1''", THEN mp]
  have alert: "alert = Obj (spec_default_record sample_now
          [''current_count'' \<mapsto> Num (Finite 150), ''threshold'' \<mapsto> Num (Finite 100)]
          ++ [''current_count'' \<mapsto> Num (Finite 150), ''threshold'' \<mapsto> Num (Finite 100)])"
    using a by (simp only: alertData_Obj option.inject)
  have ts: "own_props alert ''timestamp'' = Some (Str sample_now)"
    by (simp add: alert spec_default_record_def)
  have s1: "''s1'' \<in> sockets two_clients" "''inventory-alerts'' \<in> rooms two_clients ''s1''"
    by (simp_all add: two_clients_fields)
  have ib: \<open>inbox (on_message sample_JSON_parse sample_now ''inventory-alerts''
                    ''{"current_count":150,"threshold":100}'' two_clients) ''s1'' =
             [(''inventory-alert'', alert), (''inventory-alert'', alert)]\<close>
    using i [OF s1] by (simp only: two_clients_fields append_Nil)
  have cs: \<open>map emit_payload (calls (on_message sample_JSON_parse sample_now ''inventory-alerts''
                    ''{"current_count":150,"threshold":100}'' two_clients)) = [alert, alert]\<close>
    by (simp only: c two_clients_fields append_Nil list.map emission.sel)
  from ib cs ts show ?thesis by (intro exI [of _ alert] conjI)
qed

end
